theory Spec2Isabelle
  imports Main "HOL-Library.List_Lexorder" "HOL-Library.Char_ord" "HOL-Library.Product_Lexorder"
begin

section \<open>Python strings, lists, sets and dictionaries\<close>

text \<open>
  Strings are character lists.  The helpers below are the methods of \<^verbatim>\<open>str\<close> and
  \<^verbatim>\<open>list\<close> that \<^verbatim>\<open>backend/analyzer.py\<close> calls, with Python's behaviour on the
  empty string written out.
\<close>

fun py_split :: "char \<Rightarrow> string \<Rightarrow> string list" where
  "py_split c [] = [[]]"
| "py_split c (x # xs) =
     (if x = c then [] # py_split c xs
      else (case py_split c xs of [] \<Rightarrow> [[x]] | w # ws \<Rightarrow> (x # w) # ws))"

fun py_join :: "string \<Rightarrow> string list \<Rightarrow> string" where
  "py_join sep [] = []"
| "py_join sep [x] = x"
| "py_join sep (x # y # ys) = x @ sep @ py_join sep (y # ys)"

definition startswith :: "string \<Rightarrow> string \<Rightarrow> bool" where
  "startswith s p = (take (length p) s = p)"

definition endswith :: "string \<Rightarrow> string \<Rightarrow> bool" where
  "endswith s p = (length p \<le> length s \<and> drop (length s - length p) s = p)"

fun contains :: "string \<Rightarrow> string \<Rightarrow> bool" where
  "contains sub [] = (sub = [])"
| "contains sub (x # xs) = (startswith (x # xs) sub \<or> contains sub xs)"

definition lstrip :: "char \<Rightarrow> string \<Rightarrow> string" where
  "lstrip c s = dropWhile (\<lambda>x. x = c) s"

definition rstrip :: "char \<Rightarrow> string \<Rightarrow> string" where
  "rstrip c s = rev (dropWhile (\<lambda>x. x = c) (rev s))"

text \<open>\<^verbatim>\<open>xs[:j]\<close> for an integer \<^verbatim>\<open>j\<close>: a negative bound counts from the end.\<close>

definition py_slice_to :: "'a list \<Rightarrow> int \<Rightarrow> 'a list" where
  "py_slice_to xs j =
     (if j < 0 then take (nat (int (length xs) + j)) xs else take (nat j) xs)"

text \<open>\<^verbatim>\<open>xs[-1]\<close> raises \<^verbatim>\<open>IndexError\<close> on the empty list.\<close>

definition py_last :: "'a list \<Rightarrow> 'a option" where
  "py_last xs = (case xs of [] \<Rightarrow> None | _ \<Rightarrow> Some (last xs))"

text \<open>
  A Python \<^verbatim>\<open>set\<close> is the duplicate-free list of its elements in order of first insertion,
  a \<^verbatim>\<open>dict\<close> the association list of its items in insertion order; assigning to an
  existing key keeps the key's position.  Python leaves the iteration order of a set
  unspecified; the theorems below speak about membership only wherever a set is read back.
\<close>

definition set_add :: "'a list \<Rightarrow> 'a \<Rightarrow> 'a list" where
  "set_add xs x = (if x \<in> set xs then xs else xs @ [x])"

fun dict_set :: "('k \<times> 'v) list \<Rightarrow> 'k \<Rightarrow> 'v \<Rightarrow> ('k \<times> 'v) list" where
  "dict_set [] k v = [(k, v)]"
| "dict_set ((k', v') # d) k v =
     (if k' = k then (k, v) # d else (k', v') # dict_set d k v)"

definition dict_get :: "('k \<times> 'v) list \<Rightarrow> 'k \<Rightarrow> 'v option" where
  "dict_get d k = map_of d k"

text \<open>\<^verbatim>\<open>d[k].add(v)\<close> and \<^verbatim>\<open>d[k].append(v)\<close> on a \<^verbatim>\<open>defaultdict\<close>.\<close>

definition dd_add :: "('k \<times> 'v list) list \<Rightarrow> 'k \<Rightarrow> 'v \<Rightarrow> ('k \<times> 'v list) list" where
  "dd_add d k v =
     dict_set d k (set_add (case dict_get d k of None \<Rightarrow> [] | Some vs \<Rightarrow> vs) v)"

definition dd_append :: "('k \<times> 'v list) list \<Rightarrow> 'k \<Rightarrow> 'v \<Rightarrow> ('k \<times> 'v list) list" where
  "dd_append d k v =
     dict_set d k ((case dict_get d k of None \<Rightarrow> [] | Some vs \<Rightarrow> vs) @ [v])"

definition dd_get :: "('k \<times> 'v list) list \<Rightarrow> 'k \<Rightarrow> 'v list" where
  "dd_get d k = (case dict_get d k of None \<Rightarrow> [] | Some vs \<Rightarrow> vs)"


section \<open>The syntax tree\<close>

text \<open>
  \<^verbatim>\<open>ast.parse\<close> is the interpreter's parser.  The tree type keeps the node classes the three
  visitors and \<^verbatim>\<open>extract_symbols\<close> inspect, and one catch-all constructor for every other
  expression and statement class, which the visitors only traverse.  Children are listed
  in the order of the node's \<^verbatim>\<open>_fields\<close>, the order \<^verbatim>\<open>generic_visit\<close> follows; helper
  nodes (\<^verbatim>\<open>arguments\<close>, \<^verbatim>\<open>keyword\<close>, \<^verbatim>\<open>ExceptHandler\<close>, ...) are flattened into the
  expressions and statements they hold.  Imports arise from statements only and calls are
  collected into sets, so the relative order of expression and statement children of one
  node is immaterial.
\<close>

datatype const = StrConst string | OtherConst

datatype cmpop = Eq | OtherOp

datatype expr =
    Name string
  | Attribute expr string
  | Call expr "expr list"
  | Compare expr "cmpop list" "expr list"
  | Constant const
  | OtherExpr "expr list"

type_synonym import_alias = "string \<times> string option"

datatype stmt =
    Import "import_alias list"
  | ImportFrom "string option" "import_alias list" nat
  | FunctionDef string nat "expr list" "stmt list" "expr list" "expr list"
  | AsyncFunctionDef string nat "expr list" "stmt list" "expr list" "expr list"
  | ClassDef string nat "expr list" "stmt list" "expr list"
  | If expr "stmt list" "stmt list"
  | Expr expr
  | OtherStmt "expr list" "stmt list"

text \<open>
  \<^term>\<open>FunctionDef name lineno args body decorator_list returns\<close> and
  \<^term>\<open>ClassDef name lineno bases body decorator_list\<close>: \<^verbatim>\<open>args\<close> holds the default values
  and annotations of the parameters, \<^verbatim>\<open>bases\<close> the base classes and keyword values.
\<close>


section \<open>ImportVisitor\<close>

definition truthy :: "string option \<Rightarrow> bool" where
  "truthy m = (case m of None \<Rightarrow> False | Some s \<Rightarrow> s \<noteq> [])"

definition str_or_empty :: "string option \<Rightarrow> string" where
  "str_or_empty m = (case m of None \<Rightarrow> [] | Some s \<Rightarrow> s)"

definition record_alias :: "string \<Rightarrow> import_alias \<Rightarrow> string list" where
  "record_alias abs_base a =
     (if fst a = ''*'' then (if abs_base \<noteq> [] then [abs_base] else [])
      else (let fq = abs_base @ (if abs_base \<noteq> [] then ''.'' @ fst a else fst a)
            in [if fq \<noteq> [] then fq else fst a]))"

definition visit_ImportFrom :: "string \<Rightarrow> string option \<Rightarrow> import_alias list \<Rightarrow> nat \<Rightarrow> string list" where
  "visit_ImportFrom parent_package module names level =
     (let base = (if truthy module
                  then (if level \<noteq> 0 then replicate level CHR ''.'' @ str_or_empty module
                        else str_or_empty module)
                  else replicate level CHR ''.'');
          abs_base =
            (if startswith base ''.'' then
               (let rel_depth = length base - length (lstrip CHR ''.'' base);
                    pkg_parts = (if parent_package \<noteq> [] then py_split CHR ''.'' parent_package
                                 else []);
                    prefix = (if rel_depth \<noteq> 0 \<and> rel_depth \<le> length pkg_parts
                              then py_join ''.'' (py_slice_to pkg_parts (- int rel_depth))
                              else parent_package)
                in prefix @ (if truthy module then ''.'' @ str_or_empty module else []))
             else base)
      in concat (map (record_alias abs_base) names))"

definition visit_Import :: "import_alias list \<Rightarrow> string list" where
  "visit_Import names = map fst names"


text \<open>
  \<^verbatim>\<open>ImportVisitor.visit_Call\<close> records the receiver of \<^verbatim>\<open>receiver.method(...)\<close> when the
  receiver is a bare name, and the callee of \<^verbatim>\<open>name(...)\<close>.
\<close>

definition iv_visit_Call :: "expr \<Rightarrow> string list" where
  "iv_visit_Call func =
     (case func of
        Attribute v a \<Rightarrow> (case v of Name r \<Rightarrow> [r] | _ \<Rightarrow> [])
      | Name n \<Rightarrow> [n]
      | _ \<Rightarrow> [])"

fun iv_calls_expr :: "expr \<Rightarrow> string list" where
  "iv_calls_expr (Name n) = []"
| "iv_calls_expr (Attribute v a) = iv_calls_expr v"
| "iv_calls_expr (Call func args) =
     iv_visit_Call func @ iv_calls_expr func @ concat (map iv_calls_expr args)"
| "iv_calls_expr (Compare l ops cs) = iv_calls_expr l @ concat (map iv_calls_expr cs)"
| "iv_calls_expr (Constant c) = []"
| "iv_calls_expr (OtherExpr es) = concat (map iv_calls_expr es)"

fun iv_calls :: "stmt \<Rightarrow> string list" where
  "iv_calls (Import names) = []"
| "iv_calls (ImportFrom m names level) = []"
| "iv_calls (FunctionDef n l args body decs rets) =
     concat (map iv_calls_expr args) @ concat (map iv_calls body)
       @ concat (map iv_calls_expr decs) @ concat (map iv_calls_expr rets)"
| "iv_calls (AsyncFunctionDef n l args body decs rets) =
     concat (map iv_calls_expr args) @ concat (map iv_calls body)
       @ concat (map iv_calls_expr decs) @ concat (map iv_calls_expr rets)"
| "iv_calls (ClassDef n l bases body decs) =
     concat (map iv_calls_expr bases) @ concat (map iv_calls body)
       @ concat (map iv_calls_expr decs)"
| "iv_calls (If t body orelse) =
     iv_calls_expr t @ concat (map iv_calls body) @ concat (map iv_calls orelse)"
| "iv_calls (Expr e) = iv_calls_expr e"
| "iv_calls (OtherStmt es ss) = concat (map iv_calls_expr es) @ concat (map iv_calls ss)"

fun iv_imports :: "string \<Rightarrow> stmt \<Rightarrow> string list" where
  "iv_imports pp (Import names) = visit_Import names"
| "iv_imports pp (ImportFrom m names level) = visit_ImportFrom pp m names level"
| "iv_imports pp (FunctionDef n l args body decs rets) = concat (map (iv_imports pp) body)"
| "iv_imports pp (AsyncFunctionDef n l args body decs rets) = concat (map (iv_imports pp) body)"
| "iv_imports pp (ClassDef n l bases body decs) = concat (map (iv_imports pp) body)"
| "iv_imports pp (If t body orelse) =
     concat (map (iv_imports pp) body) @ concat (map (iv_imports pp) orelse)"
| "iv_imports pp (Expr e) = []"
| "iv_imports pp (OtherStmt es ss) = concat (map (iv_imports pp) ss)"

definition py_set :: "'a list \<Rightarrow> 'a list" where
  "py_set xs = fold (\<lambda>x s. set_add s x) xs []"

text \<open>The two attributes of an \<^verbatim>\<open>ImportVisitor\<close> after \<^verbatim>\<open>visitor.visit(tree)\<close>.\<close>

definition ImportVisitor_imports :: "string \<Rightarrow> stmt list \<Rightarrow> string list" where
  "ImportVisitor_imports parent_package tree = concat (map (iv_imports parent_package) tree)"

definition ImportVisitor_calls :: "stmt list \<Rightarrow> string list" where
  "ImportVisitor_calls tree = py_set (concat (map iv_calls tree))"


section \<open>CallGraphVisitor\<close>

text \<open>
  The visitor keeps the name of the innermost enclosing function definition in
  \<^verbatim>\<open>current_function\<close> and records a call only while that name is set.  The traversal
  below yields the (caller, target) pairs in visiting order; \<^verbatim>\<open>calls\<close> is the
  \<^verbatim>\<open>defaultdict(set)\<close> they are added to.
\<close>

definition cg_visit_Call :: "string option \<Rightarrow> expr \<Rightarrow> (string \<times> string) list" where
  "cg_visit_Call cur func =
     (if truthy cur then
        (case func of
           Name n \<Rightarrow> [(str_or_empty cur, n)]
         | Attribute v a \<Rightarrow> (case v of Name r \<Rightarrow> [(str_or_empty cur, a)] | _ \<Rightarrow> [])
         | _ \<Rightarrow> [])
      else [])"

fun cg_expr :: "string option \<Rightarrow> expr \<Rightarrow> (string \<times> string) list" where
  "cg_expr cur (Name n) = []"
| "cg_expr cur (Attribute v a) = cg_expr cur v"
| "cg_expr cur (Call func args) =
     cg_visit_Call cur func @ cg_expr cur func @ concat (map (cg_expr cur) args)"
| "cg_expr cur (Compare l ops cs) = cg_expr cur l @ concat (map (cg_expr cur) cs)"
| "cg_expr cur (Constant c) = []"
| "cg_expr cur (OtherExpr es) = concat (map (cg_expr cur) es)"

fun cg_stmt :: "string option \<Rightarrow> stmt \<Rightarrow> (string \<times> string) list" where
  "cg_stmt cur (Import names) = []"
| "cg_stmt cur (ImportFrom m names level) = []"
| "cg_stmt cur (FunctionDef n l args body decs rets) =
     concat (map (cg_expr (Some n)) args) @ concat (map (cg_stmt (Some n)) body)
       @ concat (map (cg_expr (Some n)) decs) @ concat (map (cg_expr (Some n)) rets)"
| "cg_stmt cur (AsyncFunctionDef n l args body decs rets) =
     concat (map (cg_expr (Some n)) args) @ concat (map (cg_stmt (Some n)) body)
       @ concat (map (cg_expr (Some n)) decs) @ concat (map (cg_expr (Some n)) rets)"
| "cg_stmt cur (ClassDef n l bases body decs) =
     concat (map (cg_expr cur) bases) @ concat (map (cg_stmt cur) body)
       @ concat (map (cg_expr cur) decs)"
| "cg_stmt cur (If t body orelse) =
     cg_expr cur t @ concat (map (cg_stmt cur) body) @ concat (map (cg_stmt cur) orelse)"
| "cg_stmt cur (Expr e) = cg_expr cur e"
| "cg_stmt cur (OtherStmt es ss) =
     concat (map (cg_expr cur) es) @ concat (map (cg_stmt cur) ss)"

definition CallGraphVisitor_calls :: "stmt list \<Rightarrow> (string \<times> string list) list" where
  "CallGraphVisitor_calls tree =
     fold (\<lambda>(f, t) d. dd_add d f t) (concat (map (cg_stmt None) tree)) []"


section \<open>EntrypointVisitor and extract_symbols\<close>

definition is_main_guard :: "expr \<Rightarrow> bool" where
  "is_main_guard test =
     (case test of
        Compare l ops cs \<Rightarrow>
          (case l of
             Name n \<Rightarrow> n = ''__name__'' \<and> Eq \<in> set ops
                        \<and> Constant (StrConst ''__main__'') \<in> set cs
           | _ \<Rightarrow> False)
      | _ \<Rightarrow> False)"

definition route_attrs :: "string list" where
  "route_attrs = [''get'', ''post'', ''put'', ''delete'', ''patch'', ''route'']"

definition dec_is_entry :: "expr \<Rightarrow> bool" where
  "dec_is_entry dec =
     (case dec of
        Name n \<Rightarrow> n \<in> set [''app'', ''route'']
      | Attribute v a \<Rightarrow> a \<in> set route_attrs
      | Call func args \<Rightarrow>
          (case func of Attribute v a \<Rightarrow> a \<in> set route_attrs | _ \<Rightarrow> False)
      | _ \<Rightarrow> False)"

fun ep_stmt :: "stmt \<Rightarrow> string list" where
  "ep_stmt (Import names) = []"
| "ep_stmt (ImportFrom m names level) = []"
| "ep_stmt (FunctionDef n l args body decs rets) =
     (if list_ex dec_is_entry decs then [n] else []) @ concat (map ep_stmt body)"
| "ep_stmt (AsyncFunctionDef n l args body decs rets) =
     (if list_ex dec_is_entry decs then [n] else []) @ concat (map ep_stmt body)"
| "ep_stmt (ClassDef n l bases body decs) = concat (map ep_stmt body)"
| "ep_stmt (If t body orelse) =
     (if is_main_guard t then [''__main__''] else [])
       @ concat (map ep_stmt body) @ concat (map ep_stmt orelse)"
| "ep_stmt (Expr e) = []"
| "ep_stmt (OtherStmt es ss) = concat (map ep_stmt ss)"

definition EntrypointVisitor_entrypoints :: "stmt list \<Rightarrow> string list" where
  "EntrypointVisitor_entrypoints tree = py_set (concat (map ep_stmt tree))"

text \<open>
  A symbol is (name, kind, line number); the docstring component of the source's tuple
  feeds display text only and is left out.
\<close>

type_synonym symbol = "string \<times> string \<times> nat"

fun extract_symbol :: "stmt \<Rightarrow> symbol list" where
  "extract_symbol (ClassDef n l bases body decs) = [(n, ''class'', l)]"
| "extract_symbol (FunctionDef n l args body decs rets) = [(n, ''function'', l)]"
| "extract_symbol (AsyncFunctionDef n l args body decs rets) = [(n, ''function'', l)]"
| "extract_symbol s = []"

definition extract_symbols :: "stmt list \<Rightarrow> symbol list" where
  "extract_symbols tree = concat (map extract_symbol tree)"


section \<open>Paths and module ids\<close>

datatype error = SyntaxError | ValueError | KeyError | RecursionError

text \<open>
  \<^verbatim>\<open>posixpath.dirname\<close>, \<^verbatim>\<open>os.path.splitext\<close> (first component) and
  \<^verbatim>\<open>posixpath.relpath\<close>.  \<^verbatim>\<open>relpath\<close> compares the components of the two absolute,
  normalised paths; \<open>cwd\<close> is the working directory \<^verbatim>\<open>abspath\<close> joins a relative path to.
  It raises \<^verbatim>\<open>ValueError\<close> on the empty path.
\<close>

definition upto_last :: "char \<Rightarrow> string \<Rightarrow> string" where
  "upto_last c p = rev (dropWhile (\<lambda>x. x \<noteq> c) (rev p))"

definition after_last :: "char \<Rightarrow> string \<Rightarrow> string" where
  "after_last c p = rev (takeWhile (\<lambda>x. x \<noteq> c) (rev p))"

definition dirname :: "string \<Rightarrow> string" where
  "dirname p =
     (let head = upto_last CHR ''/'' p
      in if head \<noteq> [] \<and> head \<noteq> replicate (length head) CHR ''/''
         then rstrip CHR ''/'' head else head)"

definition splitext_root :: "string \<Rightarrow> string" where
  "splitext_root p =
     (let base = after_last CHR ''/'' p;
          stem = butlast (upto_last CHR ''.'' base)
      in if CHR ''.'' \<in> set base \<and> (\<exists>c \<in> set stem. c \<noteq> CHR ''.'')
         then upto_last CHR ''/'' p @ stem else p)"

definition normpath_step :: "string list \<Rightarrow> string \<Rightarrow> string list" where
  "normpath_step new_comps part =
     (if part = [] \<or> part = ''.'' then new_comps
      else if part \<noteq> ''..'' then new_comps @ [part]
      else butlast new_comps)"

definition abspath_parts :: "string \<Rightarrow> string \<Rightarrow> string list" where
  "abspath_parts cwd p =
     foldl normpath_step []
       (if startswith p ''/'' then py_split CHR ''/'' p
        else py_split CHR ''/'' cwd @ py_split CHR ''/'' p)"

fun commonprefix_len :: "'a list \<Rightarrow> 'a list \<Rightarrow> nat" where
  "commonprefix_len (x # xs) (y # ys) = (if x = y then Suc (commonprefix_len xs ys) else 0)"
| "commonprefix_len xs ys = 0"

definition relpath :: "string \<Rightarrow> string \<Rightarrow> string \<Rightarrow> error + string" where
  "relpath cwd path start =
     (if path = [] then Inl ValueError
      else
        (let start_list = abspath_parts cwd start;
             path_list = abspath_parts cwd path;
             i = commonprefix_len start_list path_list;
             rel_list = replicate (length start_list - i) ''..'' @ drop i path_list
         in Inr (if rel_list = [] then ''.'' else py_join ''/'' rel_list)))"

definition module_key_from_path :: "string \<Rightarrow> string \<Rightarrow> string \<Rightarrow> error + string" where
  "module_key_from_path cwd root filepath =
     (case relpath cwd filepath root of
        Inl e \<Rightarrow> Inl e
      | Inr rp \<Rightarrow>
          (let rel_path = rstrip CHR ''/'' rp;
               parts = py_split CHR ''/'' rel_path;
               parts' = (if last parts = ''__init__.py'' then butlast parts
                         else butlast parts @ [splitext_root (last parts)])
           in Inr (py_join ''.'' (filter (\<lambda>p. p \<noteq> [] \<and> p \<noteq> ''.'') parts'))))"

definition first_segment :: "char \<Rightarrow> string \<Rightarrow> string" where
  "first_segment c s = (case py_split c s of [] \<Rightarrow> [] | x # xs \<Rightarrow> x)"

definition last_segment :: "char \<Rightarrow> string \<Rightarrow> string" where
  "last_segment c s = last (py_split c s)"

definition get_top_module :: "string \<Rightarrow> string" where
  "get_top_module full_name = (if full_name \<noteq> [] then first_segment CHR ''.'' full_name else [])"

definition root_names :: "string list" where
  "root_names = [''src'', ''python'', ''lib'', ''pkg'', ''app'']"

definition detect_roots :: "string list \<Rightarrow> string list" where
  "detect_roots paths =
     (let dirs = sort (remdups (map dirname paths));
          tops = map (\<lambda>d. if CHR ''/'' \<in> set d then first_segment CHR ''/'' d else d) dirs;
          candidates = filter (\<lambda>top. top \<in> set root_names) tops;
          candidates' =
            (if candidates \<noteq> [] then candidates
             else (let firsts = map (first_segment CHR ''/'')
                                  (filter (\<lambda>p. CHR ''/'' \<in> set p) paths)
                   in if firsts \<noteq> [] then firsts else [[]]))
      in sort (remdups candidates'))"

text \<open>
  The second loop of \<^verbatim>\<open>_detect_project_roots\<close>: each file is keyed under the first root
  (in sorted order) that is a string prefix of its path; a file that no root prefixes gets
  no entry.
\<close>

fun fill_module_map ::
  "string \<Rightarrow> string list \<Rightarrow> string list \<Rightarrow> (string \<times> string) list
     \<Rightarrow> error + (string \<times> string) list" where
  "fill_module_map cwd roots [] module_map = Inr module_map"
| "fill_module_map cwd roots (filepath # rest) module_map =
     (case find (\<lambda>root. startswith filepath root) roots of
        None \<Rightarrow> fill_module_map cwd roots rest module_map
      | Some root \<Rightarrow>
          (case module_key_from_path cwd root filepath of
             Inl e \<Rightarrow> Inl e
           | Inr mod_id \<Rightarrow>
               fill_module_map cwd roots rest (dict_set module_map mod_id filepath)))"

definition detect_project_roots ::
  "string \<Rightarrow> (string \<times> string) list \<Rightarrow> error + (string \<times> string) list" where
  "detect_project_roots cwd files =
     fill_module_map cwd (detect_roots (map fst files)) (map fst files) []"


section \<open>Import resolution\<close>

text \<open>
  \<^verbatim>\<open>_resolve_import\<close> tries its strategies over the keys of the module table in
  insertion order.  The counters of \<^verbatim>\<open>import_resolution_stats\<close> it bumps are diagnostics
  that never reach the artifact and are not modelled.
\<close>

definition first_some :: "'a option \<Rightarrow> 'a option \<Rightarrow> 'a option" where
  "first_some a b = (case a of Some x \<Rightarrow> Some x | None \<Rightarrow> b)"

definition resolve_import :: "(string \<times> string) list \<Rightarrow> string \<Rightarrow> string option" where
  "resolve_import module_map import_name =
     (let keys = map fst module_map in
      if import_name \<in> set keys then Some import_name
      else
        first_some (find (\<lambda>key. endswith key (''.'' @ import_name)) keys)
       (first_some (find (\<lambda>key. last_segment CHR ''.'' key
                                  = last_segment CHR ''.'' import_name) keys)
       (first_some (find (\<lambda>key. contains import_name key) keys)
          (let top = get_top_module import_name
           in if top \<in> set keys then Some top else None))))"


section \<open>Data model\<close>

text \<open>
  The dataclasses of the source.  Floating-point members (\<^verbatim>\<open>avg_complexity\<close>,
  \<^verbatim>\<open>maintainability_index\<close>, the coordinates \<^verbatim>\<open>x\<close>, \<^verbatim>\<open>y\<close>) and display text (\<^verbatim>\<open>icon\<close>,
  \<^verbatim>\<open>content\<close>, docstrings) are left out; \<^verbatim>\<open>stats\<close> is kept as the \<^verbatim>\<open>NodeStats\<close> value
  before \<^verbatim>\<open>to_dict\<close> turns it into strings.
\<close>

record ComplexityMetrics =
  max_complexity :: int
  block_count :: nat
  high_complexity_blocks :: nat

datatype block = Block (block_name: string) (block_classname: "string option")
  (block_complexity: int)

datatype node_stats =
    NodeStats (stats_lines: nat) (stats_classes: nat) (stats_functions: nat)
      (stats_imports: nat) (stats_complexity: "ComplexityMetrics option")
  | ExternalPackage

record FunctionDetails =
  name :: string
  lineno :: nat
  complexity :: int
  calls :: "string list"
  called_by :: "string list"
  is_entrypoint :: bool

record GraphNode =
  node_id :: string
  kind :: string
  node_type :: string
  title :: string
  path :: string
  project :: string
  stats :: node_stats
  parent :: "string option"

type_synonym GraphEdge = "string \<times> string \<times> string"

record ModuleDetails =
  md_path :: string
  md_type :: string
  md_role :: string
  md_imports :: "string list"
  md_symbols :: nat
  md_stats :: node_stats
  md_functions :: "FunctionDetails list"
  md_entrypoints :: "string list"
  md_call_graph :: "(string \<times> string list) list"
  md_dead_functions :: "string list"

text \<open>
  What the analyzer takes from outside the repository: the interpreter's parser
  (\<^verbatim>\<open>ast.parse\<close>, which raises \<^verbatim>\<open>SyntaxError\<close> or another exception, or returns the module
  body), radon (\<^verbatim>\<open>RADON_AVAILABLE\<close>, \<^verbatim>\<open>cc_visit\<close>, where \<open>None\<close> stands for an exception),
  the regular-expression and docstring scan of \<^verbatim>\<open>extract_metadata\<close>, the interpreter
  introspection of \<^verbatim>\<open>is_stdlib\<close>, the working directory, and the number of nested calls
  of the recursive depth-first search the interpreter allows before \<^verbatim>\<open>RecursionError\<close>.
\<close>

record env =
  parse :: "string \<Rightarrow> error + stmt list"
  radon_available :: bool
  cc_visit :: "string \<Rightarrow> block list option"
  extract_metadata :: "string \<Rightarrow> string \<times> string \<times> string"
  is_stdlib :: "string \<Rightarrow> bool"
  cwd :: string
  recursion_limit :: nat

record builder =
  nodes :: "GraphNode list"
  edges :: "GraphEdge list"
  external_deps :: "string list"
  module_details :: "(string \<times> ModuleDetails) list"
  complexity_calculated :: nat
  complexity_failed :: nat


section \<open>Complexity\<close>

definition py_isspace :: "char \<Rightarrow> bool" where
  "py_isspace c = (c \<in> set [CHR '' '', CHR 0x09, CHR 0x0A, CHR 0x0B, CHR 0x0C, CHR 0x0D,
                              CHR 0x1C, CHR 0x1D, CHR 0x1E, CHR 0x1F])"

definition default_metrics :: ComplexityMetrics where
  "default_metrics = \<lparr>max_complexity = 0, block_count = 0, high_complexity_blocks = 0\<rparr>"

definition calculate_module_complexity :: "env \<Rightarrow> string \<Rightarrow> ComplexityMetrics \<times> block list" where
  "calculate_module_complexity e code =
     (if \<not> radon_available e \<or> list_all py_isspace code then (default_metrics, [])
      else
        (case cc_visit e code of
           None \<Rightarrow> (default_metrics, [])
         | Some [] \<Rightarrow>
             (\<lparr>max_complexity = 1, block_count = 0, high_complexity_blocks = 0\<rparr>, [])
         | Some (b # bs) \<Rightarrow>
             (\<lparr>max_complexity = fold max (map block_complexity bs) (block_complexity b),
               block_count = length (b # bs),
               high_complexity_blocks =
                 length (filter (\<lambda>c. c > 10) (map block_complexity (b # bs)))\<rparr>,
              b # bs)))"

definition map_symbol_complexities :: "block list \<Rightarrow> (string \<times> int) list" where
  "map_symbol_complexities blocks =
     fold (\<lambda>b mapping.
             dict_set mapping
               (if truthy (block_classname b)
                then str_or_empty (block_classname b) @ ''.'' @ block_name b
                else block_name b)
               (block_complexity b))
          blocks []"

definition dict_get_or :: "('k \<times> 'v) list \<Rightarrow> 'k \<Rightarrow> 'v \<Rightarrow> 'v" where
  "dict_get_or d k dflt = (case dict_get d k of None \<Rightarrow> dflt | Some v \<Rightarrow> v)"


section \<open>Analysis of one module\<close>

definition make_functions ::
  "symbol list \<Rightarrow> (string \<times> int) list \<Rightarrow> (string \<times> string list) list \<Rightarrow> string list
     \<Rightarrow> FunctionDetails list" where
  "make_functions symbols symbol_complexities cg_calls entrypoints =
     map (\<lambda>(sym_name, sym_kind, ln).
            \<lparr>name = sym_name, lineno = ln,
             complexity = dict_get_or symbol_complexities sym_name 0,
             calls = dd_get cg_calls sym_name,
             called_by = [],
             is_entrypoint = (sym_name \<in> set entrypoints)\<rparr>)
         (filter (\<lambda>(sym_name, sym_kind, ln). sym_kind = ''function'') symbols)"

definition invert_calls :: "(string \<times> string list) list \<Rightarrow> (string \<times> string list) list" where
  "invert_calls cg_calls =
     fold (\<lambda>(f, targets) cb. fold (\<lambda>t cb'. dd_append cb' t f) targets cb) cg_calls []"

definition set_called_by ::
  "(string \<times> string list) list \<Rightarrow> FunctionDetails list \<Rightarrow> FunctionDetails list" where
  "set_called_by cb fs = map (\<lambda>func. func\<lparr>called_by := dd_get cb (name func)\<rparr>) fs"

definition all_called :: "(string \<times> string list) list \<Rightarrow> string list" where
  "all_called cg_calls = py_set (concat (map snd cg_calls))"

definition dead_functions :: "(string \<times> string list) list \<Rightarrow> FunctionDetails list \<Rightarrow> string list" where
  "dead_functions cg_calls fs =
     map name (filter (\<lambda>f. name f \<notin> set (all_called cg_calls) \<and> \<not> is_entrypoint f) fs)"

definition count_char :: "char \<Rightarrow> string \<Rightarrow> nat" where
  "count_char c s = length (filter (\<lambda>x. x = c) s)"

definition parent_package :: "string \<Rightarrow> string" where
  "parent_package module_id = py_join ''.'' (butlast (py_split CHR ''.'' module_id))"

definition module_stats :: "string \<Rightarrow> symbol list \<Rightarrow> string list \<Rightarrow> ComplexityMetrics \<Rightarrow> node_stats" where
  "module_stats code symbols imps cm =
     NodeStats (count_char CHR 0x0A code + 1)
       (length (filter (\<lambda>(n, k, l). k = ''class'') symbols))
       (length (filter (\<lambda>(n, k, l). k = ''function'') symbols))
       (length imps) (Some cm)"

definition module_node ::
  "env \<Rightarrow> string \<Rightarrow> string \<Rightarrow> string \<Rightarrow> stmt list \<Rightarrow> GraphNode" where
  "module_node e module_id filepath code tree =
     (case extract_metadata e code of (mod_type, title0, role0) \<Rightarrow>
        \<lparr>node_id = module_id, kind = ''module'', node_type = mod_type,
         title = (if title0 = [] then last_segment CHR ''.'' module_id else title0),
         path = filepath, project = get_top_module module_id,
         stats = module_stats code (extract_symbols tree)
                   (ImportVisitor_imports (parent_package module_id) tree)
                   (fst (calculate_module_complexity e code)),
         parent = None\<rparr>)"

definition module_detail ::
  "env \<Rightarrow> string \<Rightarrow> string \<Rightarrow> string \<Rightarrow> stmt list \<Rightarrow> ModuleDetails" where
  "module_detail e module_id filepath code tree =
     (case extract_metadata e code of (mod_type, title0, role0) \<Rightarrow>
        (let imps = ImportVisitor_imports (parent_package module_id) tree;
             cg_calls = CallGraphVisitor_calls tree;
             entrypoints = EntrypointVisitor_entrypoints tree;
             symbols = extract_symbols tree;
             cx = calculate_module_complexity e code;
             fs = set_called_by (invert_calls cg_calls)
                    (make_functions symbols (map_symbol_complexities (snd cx))
                       cg_calls entrypoints)
         in \<lparr>md_path = filepath, md_type = mod_type,
              md_role = (if role0 = [] then ''Module'' else role0),
              md_imports = imps, md_symbols = length symbols,
              md_stats = module_stats code symbols imps (fst cx),
              md_functions = fs, md_entrypoints = entrypoints,
              md_call_graph = cg_calls,
              md_dead_functions = dead_functions cg_calls fs\<rparr>))"

text \<open>The loop over \<^verbatim>\<open>visitor.imports\<close> that adds import edges and external packages.\<close>

definition resolved :: "(string \<times> string) list \<Rightarrow> string \<Rightarrow> string \<Rightarrow> string option" where
  "resolved module_map module_id imp =
     (case resolve_import module_map imp of
        None \<Rightarrow> None
      | Some target \<Rightarrow> if target \<noteq> [] \<and> target \<noteq> module_id then Some target else None)"

definition import_step ::
  "env \<Rightarrow> (string \<times> string) list \<Rightarrow> string \<Rightarrow> string \<Rightarrow> builder \<Rightarrow> builder" where
  "import_step e module_map module_id imp st =
     (case resolved module_map module_id imp of
        Some target \<Rightarrow> st\<lparr>edges := set_add (edges st) (module_id, target, ''imports'')\<rparr>
      | None \<Rightarrow>
          if \<not> is_stdlib e (get_top_module imp)
          then st\<lparr>external_deps := set_add (external_deps st) (get_top_module imp)\<rparr>
          else st)"

text \<open>
  The inner loop of call promotion for one \<^verbatim>\<open>call_alias\<close>: the \<^verbatim>\<open>break\<close> is taken only
  after an edge has been added.
\<close>

fun promote_call ::
  "(string \<times> string) list \<Rightarrow> string \<Rightarrow> string \<Rightarrow> string list \<Rightarrow> GraphEdge list
     \<Rightarrow> GraphEdge list" where
  "promote_call module_map module_id call_alias [] es = es"
| "promote_call module_map module_id call_alias (imp # rest) es =
     (if call_alias = last_segment CHR ''.'' imp then
        (case resolved module_map module_id imp of
           Some target \<Rightarrow> set_add es (module_id, target, ''calls'')
         | None \<Rightarrow> promote_call module_map module_id call_alias rest es)
      else promote_call module_map module_id call_alias rest es)"

definition symbol_node ::
  "string \<Rightarrow> string \<Rightarrow> string \<Rightarrow> (string \<times> int) list \<Rightarrow> symbol \<Rightarrow> GraphNode" where
  "symbol_node module_id filepath mod_type symbol_complexities symb =
     (case symb of (sym_name, sym_kind, ln) \<Rightarrow>
        (let v = dict_get_or symbol_complexities sym_name 0 in
         \<lparr>node_id = module_id @ ''.'' @ sym_name, kind = sym_kind, node_type = mod_type,
          title = sym_name, path = filepath, project = get_top_module module_id,
          stats = NodeStats 0 0 0 0
                    (if v > 0
                     then Some \<lparr>max_complexity = v, block_count = 1,
                                high_complexity_blocks = (if v > 10 then 1 else 0)\<rparr>
                     else None),
          parent = Some module_id\<rparr>))"

definition symbol_step ::
  "string \<Rightarrow> string \<Rightarrow> string \<Rightarrow> (string \<times> int) list \<Rightarrow> symbol \<Rightarrow> builder \<Rightarrow> builder" where
  "symbol_step module_id filepath mod_type symbol_complexities symb st =
     st\<lparr>nodes := nodes st @ [symbol_node module_id filepath mod_type symbol_complexities symb],
        edges := set_add (edges st)
                   (module_id, module_id @ ''.'' @ fst symb, ''defines'')\<rparr>"

text \<open>The body of the loop of \<^verbatim>\<open>_analyze_modules\<close> once the source has parsed.\<close>

definition analyze_parsed ::
  "env \<Rightarrow> (string \<times> string) list \<Rightarrow> bool \<Rightarrow> string \<Rightarrow> string \<Rightarrow> string \<Rightarrow> stmt list
     \<Rightarrow> builder \<Rightarrow> builder" where
  "analyze_parsed e module_map symbol_level module_id filepath code tree st =
     (let cx = calculate_module_complexity e code;
          blocks = snd cx;
          st1 = (if block_count (fst cx) > 0 \<or> max_complexity (fst cx) > 0
                 then st\<lparr>complexity_calculated := complexity_calculated st + 1\<rparr>
                 else st\<lparr>complexity_failed := complexity_failed st + 1\<rparr>);
          imps = ImportVisitor_imports (parent_package module_id) tree;
          st2 = st1\<lparr>nodes := nodes st1 @ [module_node e module_id filepath code tree],
                    module_details := dict_set (module_details st1) module_id
                                        (module_detail e module_id filepath code tree)\<rparr>;
          st3 = fold (import_step e module_map module_id) imps st2;
          st4 = st3\<lparr>edges := fold (\<lambda>call_alias es.
                                     promote_call module_map module_id call_alias imps es)
                                 (ImportVisitor_calls tree) (edges st3)\<rparr>
      in if symbol_level \<and> blocks \<noteq> []
         then fold (symbol_step module_id filepath (fst (extract_metadata e code))
                      (map_symbol_complexities blocks))
                   (extract_symbols tree) st4
         else st4)"

definition analyze_module ::
  "env \<Rightarrow> (string \<times> string) list \<Rightarrow> (string \<times> string) list \<Rightarrow> bool
     \<Rightarrow> string \<times> string \<Rightarrow> builder \<Rightarrow> error + builder" where
  "analyze_module e files module_map symbol_level item st =
     (case item of (module_id, filepath) \<Rightarrow>
        (case dict_get files filepath of
           None \<Rightarrow> Inl KeyError
         | Some code \<Rightarrow>
             (case parse e code of
                Inl SyntaxError \<Rightarrow> Inr (st\<lparr>complexity_failed := complexity_failed st + 1\<rparr>)
              | Inl err \<Rightarrow> Inl err
              | Inr tree \<Rightarrow>
                  Inr (analyze_parsed e module_map symbol_level module_id filepath code
                         tree st))))"

fun analyze_loop ::
  "env \<Rightarrow> (string \<times> string) list \<Rightarrow> (string \<times> string) list \<Rightarrow> bool
     \<Rightarrow> (string \<times> string) list \<Rightarrow> builder \<Rightarrow> error + builder" where
  "analyze_loop e files module_map symbol_level [] st = Inr st"
| "analyze_loop e files module_map symbol_level (item # items) st =
     (case analyze_module e files module_map symbol_level item st of
        Inl err \<Rightarrow> Inl err
      | Inr st' \<Rightarrow> analyze_loop e files module_map symbol_level items st')"

definition init_builder :: builder where
  "init_builder = \<lparr>nodes = [], edges = [], external_deps = [], module_details = [],
                   complexity_calculated = 0, complexity_failed = 0\<rparr>"

definition analyze_modules ::
  "env \<Rightarrow> (string \<times> string) list \<Rightarrow> (string \<times> string) list \<Rightarrow> bool \<Rightarrow> error + builder" where
  "analyze_modules e files module_map symbol_level =
     analyze_loop e files module_map symbol_level module_map init_builder"


section \<open>External nodes\<close>

definition external_node :: "string \<Rightarrow> GraphNode" where
  "external_node ext_pkg =
     \<lparr>node_id = ''external:'' @ ext_pkg, kind = ''external'', node_type = ''external'',
      title = ext_pkg, path = ''external/'' @ ext_pkg, project = ''external'',
      stats = ExternalPackage, parent = None\<rparr>"

definition external_step :: "string \<Rightarrow> builder \<Rightarrow> builder" where
  "external_step ext_pkg st =
     st\<lparr>nodes := nodes st @ [external_node ext_pkg],
        edges := fold (\<lambda>(module_id, details) es.
                         if list_ex (\<lambda>imp. get_top_module imp = ext_pkg) (md_imports details)
                         then set_add es (module_id, ''external:'' @ ext_pkg, ''external'')
                         else es)
                      (module_details st) (edges st)\<rparr>"

definition add_external_nodes :: "builder \<Rightarrow> builder" where
  "add_external_nodes st = fold external_step (sort (external_deps st)) st"


section \<open>Layout depth\<close>

text \<open>
  \<^verbatim>\<open>_calculate_layout\<close> without the coordinates.  The two recursive searches take the
  number of nested calls still allowed and fail with \<^verbatim>\<open>RecursionError\<close> when it is used up.
  \<^verbatim>\<open>comp_depth\<close> is only ever read at component ids, all of which are keys.
\<close>

fun dfs_loop ::
  "(string \<Rightarrow> 's \<Rightarrow> error + 's) \<Rightarrow> ('s \<Rightarrow> string list) \<Rightarrow> string list \<Rightarrow> 's \<Rightarrow> error + 's" where
  "dfs_loop f visited [] st = Inr st"
| "dfs_loop f visited (n # ns) st =
     (if n \<in> set (visited st) then dfs_loop f visited ns st
      else (case f n st of Inl err \<Rightarrow> Inl err | Inr st' \<Rightarrow> dfs_loop f visited ns st'))"

primrec dfs1 ::
  "nat \<Rightarrow> (string \<times> string list) list \<Rightarrow> string \<Rightarrow> string list \<times> string list
     \<Rightarrow> error + (string list \<times> string list)" where
  "dfs1 0 graph node st = Inl RecursionError"
| "dfs1 (Suc d) graph node st =
     (case dfs_loop (dfs1 d graph) fst (dd_get graph node) (set_add (fst st) node, snd st) of
        Inl err \<Rightarrow> Inl err
      | Inr st' \<Rightarrow> Inr (fst st', snd st' @ [node]))"

primrec dfs2 ::
  "nat \<Rightarrow> (string \<times> string list) list \<Rightarrow> nat \<Rightarrow> string
     \<Rightarrow> (string \<times> nat) list \<times> string list \<Rightarrow> error + ((string \<times> nat) list \<times> string list)" where
  "dfs2 0 reverse_graph cid node st = Inl RecursionError"
| "dfs2 (Suc d) reverse_graph cid node st =
     dfs_loop (dfs2 d reverse_graph cid) snd (dd_get reverse_graph node)
       (dict_set (fst st) node cid, set_add (snd st) node)"

fun assign_components ::
  "nat \<Rightarrow> (string \<times> string list) list \<Rightarrow> string list
     \<Rightarrow> (string \<times> nat) list \<times> string list \<times> nat
     \<Rightarrow> error + ((string \<times> nat) list \<times> string list \<times> nat)" where
  "assign_components lim reverse_graph [] st = Inr st"
| "assign_components lim reverse_graph (node # rest) (component, visited, comp_id) =
     (if node \<in> set visited
      then assign_components lim reverse_graph rest (component, visited, comp_id)
      else (case dfs2 lim reverse_graph comp_id node (component, visited) of
              Inl err \<Rightarrow> Inl err
            | Inr (component', visited') \<Rightarrow>
                assign_components lim reverse_graph rest
                  (component', visited', comp_id + 1)))"

definition kahn_step ::
  "nat \<Rightarrow> nat \<Rightarrow> nat list \<times> (nat \<times> nat) list \<times> (nat \<times> int) list
     \<Rightarrow> nat list \<times> (nat \<times> nat) list \<times> (nat \<times> int) list" where
  "kahn_step c neighbor st =
     (case st of (queue, comp_depth, in_degree) \<Rightarrow>
        (let comp_depth' = dict_set comp_depth neighbor
                             (max (dict_get_or comp_depth neighbor 0)
                                  (dict_get_or comp_depth c 0 + 1));
             d = dict_get_or in_degree neighbor 0 - 1;
             in_degree' = dict_set in_degree neighbor d
         in (if d = 0 then queue @ [neighbor] else queue, comp_depth', in_degree')))"

definition pending :: "(nat \<times> int) list \<Rightarrow> nat" where
  "pending in_degree = sum_list (map (\<lambda>(k, v). nat v) in_degree)"

definition kahn_measure :: "nat list \<times> (nat \<times> nat) list \<times> (nat \<times> int) list \<Rightarrow> nat" where
  "kahn_measure st =
     (case st of (queue, comp_depth, in_degree) \<Rightarrow> 2 * pending in_degree + length queue)"

lemma pending_dict_set:
  "pending (dict_set d k v) + nat (dict_get_or d k 0) = pending d + nat v"
  by (induction d) (auto simp: pending_def dict_get_or_def dict_get_def)

lemma kahn_step_measure: "kahn_measure (kahn_step c n st) \<le> kahn_measure st"
proof -
  obtain q cd ind where st: "st = (q, cd, ind)" by (cases st)
  have "pending (dict_set ind n (dict_get_or ind n 0 - 1)) + nat (dict_get_or ind n 0)
          = pending ind + nat (dict_get_or ind n 0 - 1)"
    by (rule pending_dict_set)
  then show ?thesis
    by (auto simp: st kahn_step_def kahn_measure_def Let_def)
qed

lemma fold_kahn_step_measure: "kahn_measure (fold (kahn_step c) ns st) \<le> kahn_measure st"
proof (induction ns arbitrary: st)
  case Nil
  show ?case by simp
next
  case (Cons n ns)
  have "kahn_measure (fold (kahn_step c) ns (kahn_step c n st))
          \<le> kahn_measure (kahn_step c n st)"
    by (rule Cons.IH)
  also have "\<dots> \<le> kahn_measure st" by (rule kahn_step_measure)
  finally show ?case by simp
qed

text \<open>The \<^verbatim>\<open>while queue:\<close> loop.  Every round takes one component off the queue, and a
  component is appended only when its in-degree reaches zero from above.\<close>

function kahn ::
  "(nat \<times> nat list) list \<Rightarrow> nat list \<times> (nat \<times> nat) list \<times> (nat \<times> int) list
     \<Rightarrow> (nat \<times> nat) list" where
  "kahn comp_graph ([], comp_depth, in_degree) = comp_depth"
| "kahn comp_graph (c # queue, comp_depth, in_degree) =
     kahn comp_graph (fold (kahn_step c) (dd_get comp_graph c) (queue, comp_depth, in_degree))"
  by pat_completeness auto
termination
proof (relation "measure (\<lambda>(g, st). kahn_measure st)")
  show "wf (measure (\<lambda>(g, st). kahn_measure st))" by simp
next
  fix comp_graph :: "(nat \<times> nat list) list" and c queue comp_depth in_degree
  have "kahn_measure (fold (kahn_step c) (dd_get comp_graph c) (queue, comp_depth, in_degree))
          \<le> kahn_measure (queue, comp_depth, in_degree)"
    by (rule fold_kahn_step_measure)
  also have "\<dots> < kahn_measure (c # queue, comp_depth, in_degree)"
    by (simp add: kahn_measure_def)
  finally show "((comp_graph,
                  fold (kahn_step c) (dd_get comp_graph c) (queue, comp_depth, in_degree)),
                 (comp_graph, c # queue, comp_depth, in_degree))
                \<in> measure (\<lambda>(g, st). kahn_measure st)"
    by simp
qed

definition layout_kinds :: "string list" where
  "layout_kinds = [''module'', ''external'']"

definition layout_edge_types :: "string list" where
  "layout_edge_types = [''imports'', ''calls'', ''external'']"

definition all_nodes_of :: "GraphNode list \<Rightarrow> string list" where
  "all_nodes_of ns = py_set (map node_id (filter (\<lambda>n. kind n \<in> set layout_kinds) ns))"

definition build_graphs ::
  "string list \<Rightarrow> GraphEdge list
     \<Rightarrow> (string \<times> string list) list \<times> (string \<times> string list) list" where
  "build_graphs all_nodes es =
     fold (\<lambda>(src, dst, edge_type) (graph, reverse_graph).
             if edge_type \<in> set layout_edge_types \<and> src \<in> set all_nodes \<and> dst \<in> set all_nodes
             then (dd_add graph src dst, dd_add reverse_graph dst src)
             else (graph, reverse_graph))
          es ([], [])"

definition build_comp_graph :: "(string \<times> nat) list \<Rightarrow> GraphEdge list \<Rightarrow> (nat \<times> nat list) list" where
  "build_comp_graph component es =
     fold (\<lambda>(src, dst, edge_type) comp_graph.
             (case (dict_get component src, dict_get component dst) of
                (Some cs, Some cd) \<Rightarrow> if cs \<noteq> cd then dd_add comp_graph cs cd else comp_graph
              | _ \<Rightarrow> comp_graph))
          es []"

definition count_in_degree :: "(nat \<times> nat list) list \<Rightarrow> (nat \<times> int) list" where
  "count_in_degree comp_graph =
     fold (\<lambda>(src, dsts) in_degree.
             fold (\<lambda>dst ind. dict_set ind dst (dict_get_or ind dst 0 + 1)) dsts in_degree)
          comp_graph []"

definition component_depths :: "(string \<times> nat) list \<Rightarrow> nat \<Rightarrow> GraphEdge list \<Rightarrow> (nat \<times> nat) list" where
  "component_depths component comp_id es =
     (let comp_graph = build_comp_graph component es;
          comp_depth = map (\<lambda>i. (i, 0)) [0..<comp_id];
          in_degree = count_in_degree comp_graph;
          queue = filter (\<lambda>c. dict_get_or in_degree c 0 = 0) [0..<comp_id]
      in kahn comp_graph (queue, comp_depth, in_degree))"

definition node_depth_step ::
  "(string \<times> nat) list \<Rightarrow> (nat \<times> nat) list \<Rightarrow> GraphNode \<Rightarrow> (string \<times> nat) list
     \<Rightarrow> (string \<times> nat) list" where
  "node_depth_step component comp_depth node layout_depth =
     (if kind node \<in> set layout_kinds
      then dict_set layout_depth (node_id node)
             (dict_get_or comp_depth (dict_get_or component (node_id node) 0) 0)
      else if truthy (parent node)
      then dict_set layout_depth (node_id node)
             (dict_get_or comp_depth (dict_get_or component (str_or_empty (parent node)) 0) 0)
      else layout_depth)"

definition calculate_layout ::
  "nat \<Rightarrow> GraphNode list \<Rightarrow> GraphEdge list \<Rightarrow> error + (string \<times> nat) list" where
  "calculate_layout lim ns es =
     (if es = [] then Inr []
      else
        (let all_nodes = all_nodes_of ns;
             graphs = build_graphs all_nodes es
         in case dfs_loop (dfs1 lim (fst graphs)) fst all_nodes ([], []) of
              Inl err \<Rightarrow> Inl err
            | Inr (visited, order) \<Rightarrow>
                (case assign_components lim (snd graphs) (rev order) ([], [], 0) of
                   Inl err \<Rightarrow> Inl err
                 | Inr (component, visited', comp_id) \<Rightarrow>
                     Inr (fold (node_depth_step component
                                  (component_depths component comp_id es))
                               ns []))))"


section \<open>The builder\<close>

record artifact =
  art_nodes :: "GraphNode list"
  art_edges :: "GraphEdge list"
  art_module_details :: "(string \<times> ModuleDetails) list"
  art_file_contents :: "(string \<times> string) list"
  art_layout_depth :: "(string \<times> nat) list"

text \<open>
  \<^verbatim>\<open>DependencyGraphBuilder.build\<close>.  The result carries the members of the returned
  dictionary that are computed from the graph; \<^verbatim>\<open>version\<close>, \<^verbatim>\<open>generatedAt\<close>, the opaque
  \<^verbatim>\<open>folder_structure\<close> and the count summary under \<^verbatim>\<open>metadata\<close> are not modelled.
\<close>

definition build :: "env \<Rightarrow> (string \<times> string) list \<Rightarrow> bool \<Rightarrow> error + artifact" where
  "build e files symbol_level =
     (case detect_project_roots (cwd e) files of
        Inl err \<Rightarrow> Inl err
      | Inr module_map \<Rightarrow>
          (case analyze_modules e files module_map symbol_level of
             Inl err \<Rightarrow> Inl err
           | Inr st \<Rightarrow>
               (let st' = add_external_nodes st in
                case calculate_layout (recursion_limit e) (nodes st') (edges st') of
                  Inl err \<Rightarrow> Inl err
                | Inr layout_depth \<Rightarrow>
                    Inr \<lparr>art_nodes = nodes st', art_edges = sort (edges st'),
                         art_module_details = module_details st',
                         art_file_contents = files,
                         art_layout_depth = layout_depth\<rparr>)))"


section \<open>Relative imports\<close>

text \<open>
  The resolution of a relative import as the specification words it: the parent package is
  split into segments, \<open>k\<close> trailing segments are dropped when there are that many, the
  named module is appended behind a dot, and every alias is recorded under the result.
\<close>

definition spec_segments :: "string \<Rightarrow> string list" where
  "spec_segments p = (if p = [] then [] else py_split CHR ''.'' p)"

definition spec_resolved_base :: "string \<Rightarrow> nat \<Rightarrow> string option \<Rightarrow> string" where
  "spec_resolved_base parent_pkg k M =
     (let segments = spec_segments parent_pkg;
          base = (if k \<le> length segments
                  then py_join ''.'' (take (length segments - k) segments)
                  else parent_pkg)
      in case M of None \<Rightarrow> base | Some m \<Rightarrow> base @ ''.'' @ m)"

definition spec_record :: "string \<Rightarrow> string \<Rightarrow> string list" where
  "spec_record base a =
     (if a = ''*'' then (if base \<noteq> [] then [base] else [])
      else [if base = [] then a else base @ ''.'' @ a])"

text \<open>The parser yields either no module name or a dotted name, which starts with a letter
  or an underscore.\<close>

definition parsed_module_name :: "string option \<Rightarrow> bool" where
  "parsed_module_name M =
     (case M of None \<Rightarrow> True | Some m \<Rightarrow> m \<noteq> [] \<and> hd m \<noteq> CHR ''.'')"

lemma lstrip_replicate:
  "m = [] \<or> hd m \<noteq> c \<Longrightarrow> lstrip c (replicate k c @ m) = m"
proof (induction k)
  case 0
  then show ?case by (cases m) (simp_all add: lstrip_def)
next
  case (Suc k)
  then show ?case by (simp add: lstrip_def)
qed

lemma py_slice_to_neg: "0 < k \<Longrightarrow> py_slice_to xs (- int k) = take (length xs - k) xs"
  by (simp add: py_slice_to_def nat_diff_distrib')

lemma startswith_replicate: "0 < k \<Longrightarrow> startswith (replicate k c @ m) [c]"
  by (cases k) (simp_all add: startswith_def)

lemma record_alias_spec: "record_alias b = (\<lambda>a. spec_record b (fst a))"
  by (rule ext) (auto simp: record_alias_def spec_record_def Let_def)

text \<open>
  Claim C5.  For a relative import of level \<open>k \<ge> 1\<close> with optional module \<open>M\<close> in a module
  whose parent package is \<open>parent_pkg\<close>, \<^verbatim>\<open>visit_ImportFrom\<close> records, for every alias, what
  the specification describes: the base is the first \<open>len(segments) - k\<close> segments of the
  parent package when \<open>k \<le> len(segments)\<close> and the parent package itself otherwise, \<open>M\<close> is
  appended behind a dot, an alias \<open>a\<close> is recorded as \<open>base.a\<close> (as \<open>a\<close> when the base is
  empty) and \<open>*\<close> records the base when it is not empty.
\<close>

theorem C5_relative_import_resolution:
  assumes "0 < k" and "parsed_module_name M"
  shows "visit_ImportFrom parent_pkg M names k
         = concat (map (\<lambda>a. spec_record (spec_resolved_base parent_pkg k M) (fst a)) names)"
proof (cases M)
  case None
  have l: "lstrip CHR ''.'' (replicate k CHR ''.'') = []"
    using lstrip_replicate[of "[]" "CHR ''.''" k] by simp
  have s: "startswith (replicate k CHR ''.'') ''.''"
    using startswith_replicate[OF assms(1), of "CHR ''.''" "[]"] by simp
  show ?thesis
    using assms(1)
    by (simp add: visit_ImportFrom_def None truthy_def str_or_empty_def l s Let_def
        py_slice_to_neg spec_resolved_base_def spec_segments_def record_alias_spec)
next
  case (Some m)
  with assms(2) have m: "m \<noteq> []" "hd m \<noteq> CHR ''.''"
    by (simp_all add: parsed_module_name_def)
  have l: "lstrip CHR ''.'' (replicate k CHR ''.'' @ m) = m"
    using lstrip_replicate[of m "CHR ''.''" k] m by simp
  have s: "startswith (replicate k CHR ''.'' @ m) ''.''"
    using startswith_replicate[OF assms(1)] by simp
  show ?thesis
    using assms(1) m
    by (simp add: visit_ImportFrom_def Some truthy_def str_or_empty_def l s Let_def
        py_slice_to_neg spec_resolved_base_def spec_segments_def record_alias_spec)
qed

theorem C5_relative_import_resolution_witness:
  "0 < (1::nat) \<and> parsed_module_name (Some ''mod'')
   \<and> visit_ImportFrom ''pkg.sub'' (Some ''mod'') [(''x'', None), (''*'', None)] 1
       = [''pkg.mod.x'', ''pkg.mod'']"
  using C5_relative_import_resolution[of 1 "Some ''mod''" "''pkg.sub''"
                                        "[(''x'', None), (''*'', None)]"]
  by (simp add: parsed_module_name_def spec_record_def spec_resolved_base_def
      spec_segments_def)


section \<open>Sets, dictionaries and the per-module records\<close>

lemma set_set_add [simp]: "set (set_add xs x) = insert x (set xs)"
  by (auto simp: set_add_def)

lemma set_py_set_aux: "set (fold (\<lambda>x s. set_add s x) xs acc) = set xs \<union> set acc"
  by (induction xs arbitrary: acc) auto

lemma set_py_set [simp]: "set (py_set xs) = set xs"
  by (simp add: py_set_def set_py_set_aux)

lemma map_of_dict_set: "map_of (dict_set d k v) = (map_of d)(k \<mapsto> v)"
  by (induction d) (auto simp: fun_eq_iff)

lemma dict_get_dict_set [simp]:
  "dict_get (dict_set d k v) k' = (if k' = k then Some v else dict_get d k')"
  by (simp add: dict_get_def map_of_dict_set)

lemma dd_get_dd_append [simp]:
  "dd_get (dd_append d k v) k' = (if k' = k then dd_get d k @ [v] else dd_get d k')"
  by (simp add: dd_get_def dd_append_def)

lemma dd_get_dd_add [simp]:
  "dd_get (dd_add d k v) k' = (if k' = k then set_add (dd_get d k) v else dd_get d k')"
  by (simp add: dd_get_def dd_add_def)

lemma dd_get_Nil [simp]: "dd_get [] k = []"
  by (simp add: dd_get_def dict_get_def)

lemma invert_inner:
  "set (dd_get (fold (\<lambda>t cb'. dd_append cb' t f) targets cb) t0)
     = set (dd_get cb t0) \<union> (if t0 \<in> set targets then {f} else {})"
  by (induction targets arbitrary: cb) auto

lemma invert_outer:
  "set (dd_get (fold (\<lambda>(f, targets) cb. fold (\<lambda>t cb'. dd_append cb' t f) targets cb) cg cb) t0)
     = set (dd_get cb t0) \<union> {f. \<exists>targets. (f, targets) \<in> set cg \<and> t0 \<in> set targets}"
proof (induction cg arbitrary: cb)
  case Nil
  show ?case by simp
next
  case (Cons a cg)
  obtain f targets where a: "a = (f, targets)" by (cases a)
  show ?case
    by (simp add: a Cons.IH invert_inner) auto
qed

lemma set_invert_calls:
  "set (dd_get (invert_calls cg) t) = {f. \<exists>targets. (f, targets) \<in> set cg \<and> t \<in> set targets}"
  by (simp add: invert_calls_def invert_outer)

lemma md_fields:
  "md_call_graph (module_detail e m fp code tree) = CallGraphVisitor_calls tree"
  "md_functions (module_detail e m fp code tree)
     = set_called_by (invert_calls (CallGraphVisitor_calls tree))
         (make_functions (extract_symbols tree)
            (map_symbol_complexities (snd (calculate_module_complexity e code)))
            (CallGraphVisitor_calls tree) (EntrypointVisitor_entrypoints tree))"
  "md_dead_functions (module_detail e m fp code tree)
     = dead_functions (CallGraphVisitor_calls tree) (md_functions (module_detail e m fp code tree))"
  "md_imports (module_detail e m fp code tree) = ImportVisitor_imports (parent_package m) tree"
  "md_path (module_detail e m fp code tree) = fp"
  by (simp_all add: module_detail_def Let_def split: prod.splits)

lemma set_all_called: "set (all_called cg) = (\<Union>targets \<in> snd ` set cg. set targets)"
  by (auto simp: all_called_def)

lemma cg_visit_Call_None [simp]: "cg_visit_Call None func = []"
  by (simp add: cg_visit_Call_def truthy_def)

lemma cg_expr_None [simp]: "cg_expr None ex = []"
  by (induction ex) simp_all

lemma calls_without_module_level_expr:
  "CallGraphVisitor_calls (pre @ Expr ex # post) = CallGraphVisitor_calls (pre @ post)"
  by (simp add: CallGraphVisitor_calls_def)

definition S3_tree :: "stmt list" where
  "S3_tree = [FunctionDef ''used'' 1 [] [OtherStmt [] []] [] [],
              FunctionDef ''dead'' 2 [] [OtherStmt [] []] [] [],
              Expr (Call (Name ''used'') [])]"

lemma S3_dead: "md_dead_functions (module_detail e m fp code S3_tree) = [''used'', ''dead'']"
  by (simp add: md_fields S3_tree_def dead_functions_def set_called_by_def make_functions_def
      extract_symbols_def CallGraphVisitor_calls_def EntrypointVisitor_entrypoints_def
      all_called_def py_set_def dec_is_entry_def)

end
